theory Spec2Isabelle
  imports Complex_Main
begin

section \<open>live\_cta\_agent.py: telemetry buffer, trigger engine, interaction cycle\<close>

text \<open>
  Wall-clock readings (\<^verbatim>\<open>time.time()\<close>, Python floats) are modelled as real numbers, so
  the comparisons and differences of the source are exact here. Every call of
  \<^verbatim>\<open>time.time()\<close> in the source is a separate argument of the function that makes it.
  The producers run in other threads and only ever call \<^verbatim>\<open>add\<close>; in the model their
  calls are a list of (clock reading, text) pairs applied in the order the lock admits them.
\<close>

subsection \<open>Strings\<close>

text \<open>\<^verbatim>\<open>s.startswith(p)\<close>\<close>

definition startswith :: "string \<Rightarrow> string \<Rightarrow> bool" where
  "startswith s p = (take (length p) s = p)"

subsection \<open>TelemetryBuffer\<close>

text \<open>
  \<^verbatim>\<open>queue.deque(maxlen=maxlen)\<close> holding \<^verbatim>\<open>(timestamp, event_str)\<close> pairs, oldest at the
  head. The lock is not modelled: every operation below is one critical section.
\<close>

record TelemetryBuffer =
  maxlen :: nat
  buf :: "(real \<times> string) list"

definition TelemetryBuffer_init :: "nat \<Rightarrow> TelemetryBuffer" where
  "TelemetryBuffer_init n = \<lparr>maxlen = n, buf = []\<rparr>"

text \<open>
  \<^verbatim>\<open>self.buf.append((time.time(), ev))\<close>: a bounded deque appends on the right and, when
  it is then longer than \<^verbatim>\<open>maxlen\<close>, drops its leftmost element.
\<close>

definition add :: "real \<Rightarrow> string \<Rightarrow> TelemetryBuffer \<Rightarrow> TelemetryBuffer" where
  "add now ev b =
     (let xs = buf b @ [(now, ev)]
      in b\<lparr>buf := (if maxlen b < length xs then tl xs else xs)\<rparr>)"

text \<open>
  The formatter stands for \<^verbatim>\<open>datetime.fromtimestamp(ts).isoformat()\<close> of the standard
  library, whose result depends on the local time zone; it is a parameter of the model.
\<close>

type_synonym formatter = "real \<Rightarrow> string"

text \<open>\<^verbatim>\<open>f"{datetime.fromtimestamp(ts).isoformat()}  {txt}"\<close> (two spaces)\<close>

definition format_event :: "formatter \<Rightarrow> real \<times> string \<Rightarrow> string" where
  "format_event fmt e = fmt (fst e) @ ''  '' @ snd e"

text \<open>
  \<^verbatim>\<open>snapshot(last_n_secs)\<close>; \<open>now\<close> is the clock reading taken inside the call.
\<close>

definition snapshot :: "formatter \<Rightarrow> real \<Rightarrow> real \<Rightarrow> TelemetryBuffer \<Rightarrow> string list" where
  "snapshot fmt now last_n_secs b =
     (let cutoff = now - last_n_secs
      in map (format_event fmt) (filter (\<lambda>e. cutoff \<le> fst e) (buf b)))"

text \<open>A sequence of \<^verbatim>\<open>add\<close> calls, each with the clock reading it took.\<close>

definition add_all :: "TelemetryBuffer \<Rightarrow> (real \<times> string) list \<Rightarrow> TelemetryBuffer" where
  "add_all b calls = foldl (\<lambda>b c. add (fst c) (snd c) b) b calls"

subsection \<open>The formatter in UTC\<close>

text \<open>
  A concrete formatter for the closed theorems below:
  \<^verbatim>\<open>datetime.fromtimestamp(ts).isoformat()\<close> on a machine whose local zone is UTC.
  \<^verbatim>\<open>fromtimestamp\<close> rounds the timestamp to microseconds (half to even) and
  \<^verbatim>\<open>isoformat\<close> prints \<^verbatim>\<open>YYYY-MM-DDTHH:MM:SS\<close>, followed by \<^verbatim>\<open>.ffffff\<close> when the
  microseconds are not zero. Python raises outside the years 1 to 9999; the function
  below is meant for timestamps inside that range only (all uses below are in 1970).
\<close>

definition digit_char :: "int \<Rightarrow> char" where
  "digit_char d = ''0123456789'' ! nat (d mod 10)"

text \<open>The decimal digits of \<open>n \<ge> 0\<close>, most significant first.\<close>

function digits :: "int \<Rightarrow> string" where
  "digits n = (if n < 10 then [digit_char n] else digits (n div 10) @ [digit_char (n mod 10)])"
  by pat_completeness auto
termination
  by (relation "measure nat") auto

declare digits.simps [simp del]

text \<open>\<^verbatim>\<open>"%0wd" % n\<close> for \<open>n \<ge> 0\<close>\<close>

definition zpad :: "nat \<Rightarrow> int \<Rightarrow> string" where
  "zpad w n = replicate (w - length (digits n)) (CHR ''0'') @ digits n"

text \<open>\<^verbatim>\<open>str(n)\<close> for an integer\<close>

definition str_int :: "int \<Rightarrow> string" where
  "str_int i = (if i < 0 then ''-'' @ digits (- i) else digits i)"

text \<open>\<^verbatim>\<open>int(x)\<close> for a float: truncation towards zero\<close>

definition int_trunc :: "real \<Rightarrow> int" where
  "int_trunc x = (if 0 \<le> x then \<lfloor>x\<rfloor> else \<lceil>x\<rceil>)"

definition round_half_even :: "real \<Rightarrow> int" where
  "round_half_even x =
     (let f = \<lfloor>x\<rfloor>; r = x - of_int f
      in if r < 1 / 2 then f else if 1 / 2 < r then f + 1
         else if even f then f else f + 1)"

text \<open>Days since 1970-01-01 to (year, month, day) in the proleptic Gregorian calendar.\<close>

definition civil_from_days :: "int \<Rightarrow> int \<times> int \<times> int" where
  "civil_from_days days =
     (let z = days + 719468;
          era = z div 146097;
          doe = z mod 146097;
          yoe = (doe - doe div 1460 + doe div 36524 - doe div 146096) div 365;
          y = yoe + era * 400;
          doy = doe - (365 * yoe + yoe div 4 - yoe div 100);
          mp = (5 * doy + 2) div 153;
          d = doy - (153 * mp + 2) div 5 + 1;
          m = (if mp < 10 then mp + 3 else mp - 9)
      in (if m \<le> 2 then y + 1 else y, m, d))"

definition isoformat_utc :: formatter where
  "isoformat_utc ts =
     (let total = round_half_even (ts * 1000000);
          secs = total div 1000000;
          us = total mod 1000000;
          days = secs div 86400;
          sod = secs mod 86400;
          (y, m, d) = civil_from_days days
      in zpad 4 y @ ''-'' @ zpad 2 m @ ''-'' @ zpad 2 d @ ''T''
         @ zpad 2 (sod div 3600) @ '':'' @ zpad 2 (sod mod 3600 div 60) @ '':''
         @ zpad 2 (sod mod 60)
         @ (if us = 0 then [] else ''.'' @ zpad 6 us))"

subsection \<open>TriggerEngine\<close>

record TriggerEngine =
  last_prompt :: real
  file_events :: "real list"

definition TriggerEngine_init :: TriggerEngine where
  "TriggerEngine_init = \<lparr>last_prompt = 0, file_events = []\<rparr>"

text \<open>The two reason strings; the dash of the source is U+2014, three bytes in UTF-8.\<close>

definition em_dash :: string where
  "em_dash = [CHR 0xE2, CHR 0x80, CHR 0x94]"

definition idle_pause_reason :: string where
  "idle_pause_reason =
     ''I noticed a short pause'' @ em_dash @ ''what were you thinking through just now?''"

definition file_burst_reason :: string where
  "file_burst_reason =
     ''You opened several new files'' @ em_dash @ ''how did you choose which ones mattered?''"

text \<open>
  \<^verbatim>\<open>any(ev.startswith("[key]") or ev.startswith("[mouse]") for ev in recent)\<close> and
  \<^verbatim>\<open>any(ev.startswith("[file+]") for ev in recent)\<close>
\<close>

definition any_input :: "string list \<Rightarrow> bool" where
  "any_input recent = list_ex (\<lambda>ev. startswith ev ''[key]'' \<or> startswith ev ''[mouse]'') recent"

definition any_file_created :: "string list \<Rightarrow> bool" where
  "any_file_created recent = list_ex (\<lambda>ev. startswith ev ''[file+]'') recent"

text \<open>
  \<^verbatim>\<open>evaluate(telemetry)\<close> returns the reason (or \<^verbatim>\<open>None\<close>) and the engine as the call
  leaves it. \<open>now\<close> is the reading of line 100, \<open>snap_now\<close> the one taken inside
  \<^verbatim>\<open>telemetry.snapshot(6)\<close>.
\<close>

definition evaluate ::
  "formatter \<Rightarrow> real \<Rightarrow> real \<Rightarrow> TriggerEngine \<Rightarrow> TelemetryBuffer \<Rightarrow> string option \<times> TriggerEngine" where
  "evaluate fmt now snap_now te b =
     (let recent = snapshot fmt snap_now 6 b
      in if \<not> any_input recent \<and> 15 < now - last_prompt te
         then (Some idle_pause_reason, te)
         else
           let kept = filter (\<lambda>ts. now - ts < 30) (file_events te);
               fe = kept @ (if any_file_created recent then [now] else []);
               te' = te\<lparr>file_events := fe\<rparr>
           in if 3 \<le> length fe \<and> 30 < now - last_prompt te
              then (Some file_burst_reason, te')
              else (None, te'))"

text \<open>
  What the monitor loop does to the engine, one step at a time: a call of \<open>evaluate\<close>
  (with its two clock readings and the buffer it sees), or the assignment
  \<^verbatim>\<open>self.trigger.last_prompt = time.time()\<close> after a handled trigger. A run of such steps
  from \<open>TriggerEngine_init\<close> gives every engine the program produces: nothing else
  writes the fields.
\<close>

datatype engine_step = Evaluate real real TelemetryBuffer | Prompted real

fun engine_run :: "formatter \<Rightarrow> engine_step list \<Rightarrow> TriggerEngine \<Rightarrow> TriggerEngine" where
  "engine_run fmt [] te = te"
| "engine_run fmt (Evaluate now snap b # steps) te =
     engine_run fmt steps (snd (evaluate fmt now snap te b))"
| "engine_run fmt (Prompted t # steps) te = engine_run fmt steps (te\<lparr>last_prompt := t\<rparr>)"

subsection \<open>Collaborators\<close>

text \<open>
  The exceptions that can leave the interaction cycle, named after the spec's taxonomy:
  the chat completion raising, the sound device raising, the transcription raising,
  \<^verbatim>\<open>open\<close> raising, and the unset \<^verbatim>\<open>self.start_time\<close>.
\<close>

datatype error = ModelError | CaptureError | TranscriptionError | OSError | AttributeError

text \<open>
  What the outside world answers during one tick of the monitor loop: the formatter, the
  clock readings in the order the tick takes them, the chat completion (\<open>None\<close> when the
  call raises), the user's answer to \<^verbatim>\<open>askyesno\<close>, whether the recording succeeds,
  the transcription (\<open>None\<close> when it raises), \<^verbatim>\<open>datetime.now().isoformat()\<close> and whether
  \<^verbatim>\<open>cta_log.jsonl\<close> can be opened.
\<close>

record env =
  iso :: formatter
  t_eval :: real
  t_snap :: real
  t_ctx :: real
  chat :: "string \<Rightarrow> string \<Rightarrow> string option"
  askyesno :: bool
  t_wav :: real
  capture_ok :: bool
  transcription :: "string option"
  log_ts :: string
  log_ok :: bool
  t_prompt :: real

text \<open>\<^verbatim>\<open>xs[-n:]\<close> for \<open>n > 0\<close>\<close>

definition last_n :: "nat \<Rightarrow> 'a list \<Rightarrow> 'a list" where
  "last_n n xs = drop (length xs - n) xs"

text \<open>\<^verbatim>\<open>"\n".join(xs)\<close>\<close>

fun join_nl :: "string list \<Rightarrow> string" where
  "join_nl [] = []"
| "join_nl [x] = x"
| "join_nl (x # y # ys) = x @ [CHR 0x0A] @ join_nl (y # ys)"

text \<open>
  \<^verbatim>\<open>s.strip()\<close> removes the leading and trailing characters for which \<^verbatim>\<open>str.isspace\<close>
  holds. Strings are UTF-8 here, so these characters are byte sequences: the ASCII ones
  (U+0009 to U+000D, U+001C to U+0020) and U+0085, U+00A0, U+1680, U+2000 to U+200A,
  U+2028, U+2029, U+202F, U+205F, U+3000.
\<close>

definition whitespace :: "string list" where
  "whitespace =
     map (\<lambda>c. [c]) [CHR 0x09, CHR 0x0A, CHR 0x0B, CHR 0x0C, CHR 0x0D,
                    CHR 0x1C, CHR 0x1D, CHR 0x1E, CHR 0x1F, CHR 0x20]
     @ [[CHR 0xC2, CHR 0x85], [CHR 0xC2, CHR 0xA0], [CHR 0xE1, CHR 0x9A, CHR 0x80]]
     @ map (\<lambda>c. [CHR 0xE2, CHR 0x80, c])
         [CHR 0x80, CHR 0x81, CHR 0x82, CHR 0x83, CHR 0x84, CHR 0x85, CHR 0x86, CHR 0x87,
          CHR 0x88, CHR 0x89, CHR 0x8A, CHR 0xA8, CHR 0xA9, CHR 0xAF]
     @ [[CHR 0xE2, CHR 0x81, CHR 0x9F], [CHR 0xE3, CHR 0x80, CHR 0x80]]"

text \<open>Removing from the front of \<open>s\<close> every leading occurrence of a sequence of \<open>ws\<close>.\<close>

function strip_left :: "string list \<Rightarrow> string \<Rightarrow> string" where
  "strip_left ws s =
     (case find (\<lambda>w. w \<noteq> [] \<and> startswith s w) ws of
        None \<Rightarrow> s
      | Some w \<Rightarrow> strip_left ws (drop (length w) s))"
  by pat_completeness auto
termination
proof (relation "measure (\<lambda>p. length (snd p))")
  show "wf (measure (\<lambda>p. length (snd p)))" by simp
next
  fix ws :: "string list" and s w :: string
  assume "find (\<lambda>w. w \<noteq> [] \<and> startswith s w) ws = Some w"
  then have "w \<noteq> []" and "take (length w) s = w"
    by (auto simp: find_Some_iff startswith_def)
  then have "s \<noteq> []" and "0 < length w" by auto
  then show "((ws, drop (length w) s), (ws, s)) \<in> measure (\<lambda>p. length (snd p))"
    by simp
qed

declare strip_left.simps [simp del]

definition strip :: "string \<Rightarrow> string" where
  "strip s = rev (strip_left (map rev whitespace) (rev (strip_left whitespace s)))"

definition system_prompt :: string where
  "system_prompt =
     ''You are an expert CTA interviewer. Ask ONE concise question '' @
     ''to reveal the user'' @ [CHR 0x27] @ ''s hidden cues/decision-making, given context.''"

definition user_msg :: "string \<Rightarrow> string list \<Rightarrow> string" where
  "user_msg prompt_hint context_lines =
     join_nl ([''Context (last 60 s, most recent last):''] @ last_n 40 context_lines
              @ [[], ''Suggested focus: '' @ prompt_hint])"

definition llm_generate_question ::
  "(string \<Rightarrow> string \<Rightarrow> string option) \<Rightarrow> string \<Rightarrow> string list \<Rightarrow> error + string" where
  "llm_generate_question completion prompt_hint context_lines =
     (case completion system_prompt (user_msg prompt_hint context_lines) of
        None \<Rightarrow> Inl ModelError
      | Some content \<Rightarrow> Inr (strip content))"

subsection \<open>CTAGUI\<close>

text \<open>
  The fields of the window that the claims are about, the pending \<^verbatim>\<open>self.after\<close>
  callback, and the files the program writes: the lines of \<^verbatim>\<open>cta_log.jsonl\<close>, the names
  of the \<^verbatim>\<open>.wav\<close> files present and the session logs by name. The buttons and message
  boxes are left out.
\<close>

record QARecord =
  qa_ts :: string
  qa_question :: string
  qa_answer :: "string option"
  qa_context :: "string list"

record CTAGUI =
  telemetry :: TelemetryBuffer
  stop_event :: bool
  trigger :: TriggerEngine
  running_threads :: nat
  start_time :: "real option"
  pending_tick :: bool
  cta_log :: "QARecord list"
  wav_files :: "string set"
  session_logs :: "string \<rightharpoonup> string list"

text \<open>The fields as \<^verbatim>\<open>__init__\<close> sets them, in a working directory without logs.\<close>

definition CTAGUI_new :: CTAGUI where
  "CTAGUI_new =
     \<lparr>telemetry = TelemetryBuffer_init 500, stop_event = False, trigger = TriggerEngine_init,
      running_threads = 0, start_time = None, pending_tick = False, cta_log = [],
      wav_files = {}, session_logs = Map.empty\<rparr>"

text \<open>
  The tail of \<^verbatim>\<open>ask_cta_question\<close>: one JSON object appended to \<^verbatim>\<open>cta_log.jsonl\<close>.
\<close>

definition store_qa ::
  "env \<Rightarrow> string \<Rightarrow> string option \<Rightarrow> string list \<Rightarrow> CTAGUI \<Rightarrow> error option \<times> CTAGUI" where
  "store_qa e question answer ctx s =
     (if log_ok e
      then (None, s\<lparr>cta_log := cta_log s @
              [\<lparr>qa_ts = log_ts e, qa_question = question, qa_answer = answer,
                qa_context = last_n 20 ctx\<rparr>]\<rparr>)
      else (Some OSError, s))"

text \<open>
  \<^verbatim>\<open>ask_cta_question(question, ctx)\<close>. The result is the exception that leaves the call, if
  any, and the state as the call leaves it. \<^verbatim>\<open>record_audio\<close> either raises in the sound
  device, before \<^verbatim>\<open>sf.write\<close>, or returns with the file written; \<^verbatim>\<open>os.remove\<close> is
  reached only when \<^verbatim>\<open>transcribe_audio\<close> has returned. There is no \<^verbatim>\<open>try\<close> in the
  function.
\<close>

definition ask_cta_question ::
  "env \<Rightarrow> string \<Rightarrow> string list \<Rightarrow> CTAGUI \<Rightarrow> error option \<times> CTAGUI" where
  "ask_cta_question e question ctx s =
     (if askyesno e then
        let wav_fn = ''ans_'' @ str_int (int_trunc (t_wav e)) @ ''.wav''
        in if \<not> capture_ok e then (Some CaptureError, s)
           else
             let s1 = s\<lparr>wav_files := insert wav_fn (wav_files s)\<rparr>
             in case transcription e of
                  None \<Rightarrow> (Some TranscriptionError, s1)
                | Some text \<Rightarrow>
                    store_qa e question (Some text) ctx
                      (s1\<lparr>wav_files := wav_files s1 - {wav_fn}\<rparr>)
      else store_qa e question None ctx s)"

text \<open>\<^verbatim>\<open>self.after(1000, self.monitor_loop)\<close>\<close>

definition after_1000 :: "CTAGUI \<Rightarrow> error option \<times> CTAGUI" where
  "after_1000 s = (None, s\<lparr>pending_tick := True\<rparr>)"

text \<open>
  \<^verbatim>\<open>monitor_loop()\<close>. There is no \<^verbatim>\<open>try\<close> in it: an exception of the cycle leaves the
  function at once, with the effects made so far. \<^verbatim>\<open>if hint:\<close> is false for \<^verbatim>\<open>None\<close> and
  for the empty string.
\<close>

definition monitor_loop :: "env \<Rightarrow> CTAGUI \<Rightarrow> error option \<times> CTAGUI" where
  "monitor_loop e s =
     (if \<not> stop_event s then
        let (hint, tr) = evaluate (iso e) (t_eval e) (t_snap e) (trigger s) (telemetry s);
            s1 = s\<lparr>trigger := tr\<rparr>
        in case hint of
             None \<Rightarrow> after_1000 s1
           | Some h \<Rightarrow>
               if h = [] then after_1000 s1
               else
                 let ctx = snapshot (iso e) (t_ctx e) 60 (telemetry s1)
                 in case llm_generate_question (chat e) h ctx of
                      Inl err \<Rightarrow> (Some err, s1)
                    | Inr question \<Rightarrow>
                        (case ask_cta_question e question ctx s1 of
                           (Some err, s2) \<Rightarrow> (Some err, s2)
                         | (None, s2) \<Rightarrow>
                             after_1000
                               (s2\<lparr>trigger := (trigger s2)\<lparr>last_prompt := t_prompt e\<rparr>\<rparr>))
      else after_1000 s)"

text \<open>
  The event loop running the pending callback: the callback is consumed, and it is
  \<^verbatim>\<open>monitor_loop\<close> itself that registers the next one.
\<close>

definition tick :: "env \<Rightarrow> CTAGUI \<Rightarrow> error option \<times> CTAGUI" where
  "tick e s =
     (if pending_tick s then monitor_loop e (s\<lparr>pending_tick := False\<rparr>) else (None, s))"

text \<open>
  Names for three expressions of \<^verbatim>\<open>monitor_loop\<close>: the value of \<open>hint\<close>, the value of
  \<open>ctx\<close>, and the content the chat completion returns for a hint (\<open>None\<close> when the
  call raises).
\<close>

abbreviation cycle_hint :: "env \<Rightarrow> CTAGUI \<Rightarrow> string option" where
  "cycle_hint e s \<equiv> fst (evaluate (iso e) (t_eval e) (t_snap e) (trigger s) (telemetry s))"

abbreviation cycle_context :: "env \<Rightarrow> CTAGUI \<Rightarrow> string list" where
  "cycle_context e s \<equiv> snapshot (iso e) (t_ctx e) 60 (telemetry s)"

abbreviation model_reply :: "env \<Rightarrow> CTAGUI \<Rightarrow> string \<Rightarrow> string option" where
  "model_reply e s hint \<equiv> chat e system_prompt (user_msg hint (cycle_context e s))"

text \<open>\<^verbatim>\<open>start_task()\<close>; \<open>now\<close> is its clock reading. Three producer threads are started.\<close>

definition start_task :: "real \<Rightarrow> CTAGUI \<Rightarrow> CTAGUI" where
  "start_task now s =
     s\<lparr>stop_event := False, start_time := Some now, running_threads := running_threads s + 3\<rparr>"

text \<open>
  \<^verbatim>\<open>dump_log()\<close> writes \<^verbatim>\<open>snapshot(10**9)\<close> to \<^verbatim>\<open>session_<int(start_time)>.log\<close>, opened
  with mode \<^verbatim>\<open>"w"\<close>.
\<close>

definition session_log_name :: "real \<Rightarrow> string" where
  "session_log_name st = ''session_'' @ str_int (int_trunc st) @ ''.log''"

definition dump_log :: "formatter \<Rightarrow> real \<Rightarrow> CTAGUI \<Rightarrow> error option \<times> CTAGUI" where
  "dump_log fmt now s =
     (case start_time s of
        None \<Rightarrow> (Some AttributeError, s)
      | Some st \<Rightarrow>
          (None, s\<lparr>session_logs :=
                     (session_logs s)
                       (session_log_name st \<mapsto> snapshot fmt now (10 ^ 9) (telemetry s))\<rparr>))"

text \<open>\<^verbatim>\<open>stop_task()\<close>; \<open>now\<close> is the clock reading inside the snapshot of the dump.\<close>

definition stop_task :: "formatter \<Rightarrow> real \<Rightarrow> CTAGUI \<Rightarrow> error option \<times> CTAGUI" where
  "stop_task fmt now s = dump_log fmt now (s\<lparr>stop_event := True, running_threads := 0\<rparr>)"

subsection \<open>The rules as the specification words them\<close>

text \<open>An event text tagged \<^verbatim>\<open>[key]\<close> or \<^verbatim>\<open>[mouse]\<close>, and one tagged \<^verbatim>\<open>[file+]\<close>.\<close>

definition input_event :: "string \<Rightarrow> bool" where
  "input_event txt = (startswith txt ''[key]'' \<or> startswith txt ''[mouse]'')"

definition file_created_event :: "string \<Rightarrow> bool" where
  "file_created_event txt = startswith txt ''[file+]''"

text \<open>
  The idle-pause rule of the specification: no \<^verbatim>\<open>[key]\<close> or \<^verbatim>\<open>[mouse]\<close> event in the
  trailing 6 seconds, and at least 15 seconds since \<open>last_prompt\<close>.
\<close>

definition spec_idle_pause :: "real \<Rightarrow> TriggerEngine \<Rightarrow> TelemetryBuffer \<Rightarrow> bool" where
  "spec_idle_pause now te b =
     (\<not> list_ex (\<lambda>e. now - 6 \<le> fst e \<and> input_event (snd e)) (buf b)
      \<and> 15 \<le> now - last_prompt te)"

text \<open>
  The file-burst rule of the specification: at least 3 \<^verbatim>\<open>[file+]\<close> events in the trailing
  30 seconds, and at least 30 seconds since \<open>last_prompt\<close>.
\<close>

definition spec_file_burst :: "real \<Rightarrow> TriggerEngine \<Rightarrow> TelemetryBuffer \<Rightarrow> bool" where
  "spec_file_burst now te b =
     (3 \<le> length (filter (\<lambda>e. now - 30 \<le> fst e \<and> file_created_event (snd e)) (buf b))
      \<and> 30 \<le> now - last_prompt te)"

subsection \<open>Scenarios\<close>

text \<open>The concrete buffers and engines of the closed theorems below.\<close>

definition idle_buffer :: TelemetryBuffer where
  "idle_buffer = add 18 ''[win] Editor'' (TelemetryBuffer_init 500)"

definition burst_buffer :: TelemetryBuffer where
  "burst_buffer =
     add_all (TelemetryBuffer_init 500)
       [(0, ''[file+] /a''), (10, ''[file+] /b''), (20, ''[file+] /c'')]"

definition busy_buffer :: TelemetryBuffer where
  "busy_buffer =
     add_all (TelemetryBuffer_init 500)
       [(10, ''[file+] /a''), (20, ''[file+] /b''), (30, ''[file+] /c''), (34, ''[key] x'')]"

definition stale_engine :: TriggerEngine where
  "stale_engine = \<lparr>last_prompt = 0, file_events = [0]\<rparr>"


text \<open>
  The answers of the outside world in the closed theorems: a tick at t = 20 in which the
  model answers, the user accepts, the recording and the transcription succeed; and its
  variants in which one collaborator fails, the log cannot be opened or the user declines.
\<close>

definition answer_env :: env where
  "answer_env =
     \<lparr>iso = isoformat_utc, t_eval = 20, t_snap = 20, t_ctx = 20,
      chat = (\<lambda>sys msg. Some '' What were you weighing just now? ''),
      askyesno = True, t_wav = 21.5, capture_ok = True,
      transcription = Some ''I was comparing two drafts.'',
      log_ts = ''1970-01-01T00:00:33'', log_ok = True, t_prompt = 34\<rparr>"

definition failing_model_env :: env where
  "failing_model_env = answer_env\<lparr>chat := (\<lambda>sys msg. None)\<rparr>"

definition failing_transcription_env :: env where
  "failing_transcription_env = answer_env\<lparr>transcription := None\<rparr>"

definition failing_capture_env :: env where
  "failing_capture_env = answer_env\<lparr>capture_ok := False\<rparr>"

definition decline_env :: env where
  "decline_env = answer_env\<lparr>askyesno := False\<rparr>"

definition failing_log_env :: env where
  "failing_log_env = answer_env\<lparr>log_ok := False\<rparr>"

text \<open>
  Window states: a fresh window over \<open>idle_buffer\<close>, the same with the callback pending,
  with stop requested, and after \<^verbatim>\<open>start_task\<close> at t = 5.
\<close>

definition idle_gui :: CTAGUI where
  "idle_gui = CTAGUI_new\<lparr>telemetry := idle_buffer\<rparr>"

definition ticking_gui :: CTAGUI where
  "ticking_gui = idle_gui\<lparr>pending_tick := True\<rparr>"

definition stopped_gui :: CTAGUI where
  "stopped_gui = idle_gui\<lparr>stop_event := True\<rparr>"

definition running_gui :: CTAGUI where
  "running_gui = start_task 5 idle_gui"

text \<open>
  The event loop running the callbacks of several ticks in a row, each with the answers
  of the world at that tick.
\<close>

fun run_ticks :: "env list \<Rightarrow> CTAGUI \<Rightarrow> CTAGUI" where
  "run_ticks [] s = s"
| "run_ticks (e # es) s = run_ticks es (snd (tick e s))"

section \<open>Properties of the buffer\<close>

lemma add_all_snoc: "add_all b (calls @ [c]) = add (fst c) (snd c) (add_all b calls)"
  by (simp add: add_all_def)

lemma maxlen_add_all: "maxlen (add_all b calls) = maxlen b"
  by (induction calls rule: rev_induct) (simp_all add: add_all_def add_def Let_def)

lemma tl_drop_snoc:
  assumes "n \<le> length xs"
  shows "tl (drop n xs @ [c]) = drop (Suc n) (xs @ [c])"
proof -
  have "drop n xs @ [c] = drop n (xs @ [c])"
    using assms by simp
  then have "tl (drop n xs @ [c]) = tl (drop n (xs @ [c]))"
    by simp
  also have "\<dots> = drop (Suc n) (xs @ [c])"
    by (simp only: drop_Suc tl_drop)
  finally show ?thesis .
qed

lemma buf_add_all_init:
  "buf (add_all (TelemetryBuffer_init N) calls) = drop (length calls - N) calls"
proof (induction calls rule: rev_induct)
  case Nil
  show ?case by (simp add: add_all_def TelemetryBuffer_init_def)
next
  case (snoc c calls)
  have m: "maxlen (add_all (TelemetryBuffer_init N) calls) = N"
    by (simp add: maxlen_add_all TelemetryBuffer_init_def)
  show ?case
  proof (cases "length calls < N")
    case True
    then show ?thesis
      using snoc m by (simp add: add_all_snoc add_def Let_def)
  next
    case False
    then have le: "length calls - N \<le> length calls" and
      ge: "N \<le> length calls" by simp_all
    have "Suc (length calls) - N = Suc (length calls - N)"
      using ge by simp
    then show ?thesis
      using snoc m ge tl_drop_snoc [OF le, of c]
      by (simp add: add_all_snoc add_def Let_def)
  qed
qed

text \<open>
  C1. After any sequence of \<open>add\<close> calls on a buffer of capacity \<open>N\<close>, the buffer holds the
  last \<open>N\<close> added events; \<open>snapshot\<close> with window \<open>w\<close> returns the formatted lines of exactly
  those buffered events whose timestamp is at least \<open>now - w\<close>, in insertion order, and
  never more than \<open>N\<close> lines.
\<close>

theorem snapshot_exact_and_bounded:
  "snapshot fmt now w (add_all (TelemetryBuffer_init N) calls) =
     map (format_event fmt)
       (filter (\<lambda>e. now - w \<le> fst e) (drop (length calls - N) calls))
   \<and> length (snapshot fmt now w (add_all (TelemetryBuffer_init N) calls)) \<le> N"
proof -
  let ?kept = "drop (length calls - N) calls"
  have "length (filter (\<lambda>e. now - w \<le> fst e) ?kept) \<le> length ?kept"
    by (rule length_filter_le)
  also have "\<dots> \<le> N" by simp
  finally show ?thesis
    by (simp add: snapshot_def Let_def buf_add_all_init)
qed

text \<open>
  C4. After \<open>N + 1\<close> appends to a buffer of capacity \<open>N\<close>, a snapshot whose window covers
  every appended event returns the lines of all appended events but the earliest, in
  order: the earliest has been evicted.
\<close>

theorem eviction_after_capacity_plus_one:
  assumes "length calls = Suc N" and "list_all (\<lambda>e. now - w \<le> fst e) calls"
  shows "snapshot fmt now w (add_all (TelemetryBuffer_init N) calls)
           = map (format_event fmt) (tl calls)"
proof -
  have "drop (length calls - N) calls = tl calls"
    using assms(1) by (simp add: drop_Suc)
  moreover have "filter (\<lambda>e. now - w \<le> fst e) (tl calls) = tl calls"
    using assms(2) by (cases calls) (simp_all add: list_all_iff)
  ultimately show ?thesis
    by (simp add: snapshot_def Let_def buf_add_all_init)
qed

text \<open>
  C4, the scenario of the specification: capacity 3, texts A, B, C, D appended at
  t = 0, 1, 2, 3; the full-window snapshot is the lines of B, C, D and the line of A is
  absent.
\<close>

theorem eviction_after_capacity_plus_one_witness:
  "length [(0::real, ''A''), (1, ''B''), (2, ''C''), (3, ''D'')] = Suc 3
   \<and> list_all (\<lambda>e. 3 - 10 ^ 9 \<le> fst e) [(0::real, ''A''), (1, ''B''), (2, ''C''), (3, ''D'')]
   \<and> snapshot isoformat_utc 3 (10 ^ 9)
        (add_all (TelemetryBuffer_init 3) [(0, ''A''), (1, ''B''), (2, ''C''), (3, ''D'')])
      = [''1970-01-01T00:00:01  B'', ''1970-01-01T00:00:02  C'', ''1970-01-01T00:00:03  D'']
   \<and> ''1970-01-01T00:00:00  A'' \<notin> set (snapshot isoformat_utc 3 (10 ^ 9)
        (add_all (TelemetryBuffer_init 3) [(0, ''A''), (1, ''B''), (2, ''C''), (3, ''D'')]))"
proof -
  let ?calls = "[(0::real, ''A''), (1, ''B''), (2, ''C''), (3, ''D'')]"
  have h1: "length ?calls = Suc 3" by simp
  have h2: "list_all (\<lambda>e. 3 - 10 ^ 9 \<le> fst e) ?calls" by simp
  have r: "map (format_event isoformat_utc) (tl ?calls)
      = [''1970-01-01T00:00:01  B'', ''1970-01-01T00:00:02  C'', ''1970-01-01T00:00:03  D'']"
    by code_simp
  have s: "snapshot isoformat_utc 3 (10 ^ 9) (add_all (TelemetryBuffer_init 3) ?calls)
      = [''1970-01-01T00:00:01  B'', ''1970-01-01T00:00:02  C'', ''1970-01-01T00:00:03  D'']"
    using eviction_after_capacity_plus_one [OF h1 h2, of isoformat_utc] r by simp
  show ?thesis
    unfolding s using h1 h2 by simp
qed

section \<open>Properties of the trigger engine\<close>

lemma reasons_distinct: "idle_pause_reason \<noteq> file_burst_reason"
  by (simp add: idle_pause_reason_def file_burst_reason_def)

text \<open>
  The lines that \<open>evaluate\<close> inspects are the formatted lines of the snapshot, which start
  with the timestamp. When the formatted timestamp does not start with a bracket, no line
  starts with a tag, whatever the events are; the UTC formatter never starts with a
  bracket, so with it \<open>evaluate\<close> depends only on the time since the last prompt.
\<close>

lemma startswith_Cons:
  "startswith s (c # p) = (case s of [] \<Rightarrow> False | x # xs \<Rightarrow> x = c \<and> startswith xs p)"
  by (cases s) (simp_all add: startswith_def)

lemma format_event_no_bracket:
  assumes "\<not> startswith (fmt (fst e)) ''[''"
  shows "\<not> startswith (format_event fmt e) (CHR ''['' # p)"
proof (cases "fmt (fst e)")
  case Nil
  then show ?thesis by (simp add: format_event_def startswith_Cons)
next
  case (Cons x xs)
  with assms have "x \<noteq> CHR ''[''" by (simp add: startswith_def)
  with Cons show ?thesis by (simp add: format_event_def startswith_Cons)
qed

lemma untagged_snapshot:
  assumes "list_all (\<lambda>e. \<not> startswith (fmt (fst e)) ''['') (buf b)"
  shows "\<not> any_input (snapshot fmt snap w b)"
    and "\<not> any_file_created (snapshot fmt snap w b)"
  using assms
  by (auto simp: any_input_def any_file_created_def snapshot_def Let_def list_ex_iff
        list_all_iff format_event_no_bracket)

lemma evaluate_with_timestamp_prefixed_lines:
  assumes "list_all (\<lambda>e. \<not> startswith (fmt (fst e)) ''['') (buf b)"
  shows "evaluate fmt now snap te b =
           (if 15 < now - last_prompt te then (Some idle_pause_reason, te)
            else (None, te\<lparr>file_events := filter (\<lambda>ts. now - ts < 30) (file_events te)\<rparr>))"
  using untagged_snapshot [OF assms, of snap 6]
  by (simp add: evaluate_def Let_def)

lemma digit_char_not_bracket: "digit_char d \<noteq> CHR ''[''"
proof -
  have "nat (d mod 10) < 10" by simp
  then have "''0123456789'' ! nat (d mod 10) \<in> set ''0123456789''"
    by (intro nth_mem) simp
  then show ?thesis unfolding digit_char_def by auto
qed

lemma digits_first: "digits n \<noteq> [] \<and> hd (digits n) \<noteq> CHR ''[''"
proof (induction n rule: digits.induct)
  case (1 n)
  show ?case
  proof (cases "n < 10")
    case True
    then show ?thesis by (simp add: digits.simps [of n] digit_char_not_bracket)
  next
    case False
    with 1 show ?thesis by (simp add: digits.simps [of n])
  qed
qed

lemma zpad_first: "\<not> startswith (zpad w n @ rest) ''[''"
proof (cases "w - length (digits n)")
  case 0
  then show ?thesis
    using digits_first [of n]
    by (cases "digits n") (simp_all add: zpad_def startswith_def)
next
  case (Suc k)
  then show ?thesis by (simp add: zpad_def startswith_def)
qed

lemma isoformat_utc_no_bracket: "\<not> startswith (isoformat_utc ts) ''[''"
  unfolding isoformat_utc_def Let_def
  by (simp only: split_beta append_assoc zpad_first not_False_eq_True)

lemma evaluate_isoformat_utc:
  "evaluate isoformat_utc now snap te b =
     (if 15 < now - last_prompt te then (Some idle_pause_reason, te)
      else (None, te\<lparr>file_events := filter (\<lambda>ts. now - ts < 30) (file_events te)\<rparr>))"
  by (rule evaluate_with_timestamp_prefixed_lines)
     (simp add: list_all_iff isoformat_utc_no_bracket)

lemma idle_pause_despite_key_event:
  "\<not> spec_idle_pause 20 TriggerEngine_init (add 18 ''[key] a'' (TelemetryBuffer_init 500))
   \<and> snapshot isoformat_utc 20 6 (add 18 ''[key] a'' (TelemetryBuffer_init 500))
        = [''1970-01-01T00:00:18  [key] a'']
   \<and> fst (evaluate isoformat_utc 20 20 TriggerEngine_init
             (add 18 ''[key] a'' (TelemetryBuffer_init 500))) = Some idle_pause_reason"
  by code_simp

lemma any_input_snapshot:
  "any_input (snapshot fmt snap w b) \<longleftrightarrow>
     (\<exists>e \<in> set (buf b). snap - w \<le> fst e \<and> input_event (format_event fmt e))"
  unfolding any_input_def snapshot_def Let_def list_ex_iff input_event_def
  by (simp add: image_iff Bex_def) blast

lemma evaluate_idle_iff:
  "fst (evaluate fmt now snap te b) = Some idle_pause_reason \<longleftrightarrow>
     \<not> any_input (snapshot fmt snap 6 b) \<and> 15 < now - last_prompt te"
  using reasons_distinct by (auto simp: evaluate_def Let_def)

lemma evaluate_burst_iff:
  "fst (evaluate fmt now snap te b) = Some file_burst_reason \<longleftrightarrow>
     \<not> (\<not> any_input (snapshot fmt snap 6 b) \<and> 15 < now - last_prompt te)
     \<and> 3 \<le> length (filter (\<lambda>ts. now - ts < 30) (file_events te)
                      @ (if any_file_created (snapshot fmt snap 6 b) then [now] else []))
     \<and> 30 < now - last_prompt te"
  using reasons_distinct by (auto simp: evaluate_def Let_def)

text \<open>
  C2, as amended. \<open>evaluate\<close> returns the idle-pause reason only if strictly more than 15
  seconds have passed since \<open>last_prompt\<close>. When more than 15 seconds have passed, no
  buffered event of the trailing 6 seconds is tagged \<^verbatim>\<open>[key]\<close> or \<^verbatim>\<open>[mouse]\<close>, and
  formatting makes no untagged event look tagged, it returns the idle-pause reason and
  leaves the engine unchanged.
\<close>

theorem idle_pause_amended:
  "(fst (evaluate fmt now snap te b) = Some idle_pause_reason \<longrightarrow> 15 < now - last_prompt te)
   \<and> (15 < now - last_prompt te
        \<and> list_all (\<lambda>e. input_event (snd e) \<or> \<not> input_event (format_event fmt e)) (buf b)
        \<and> \<not> list_ex (\<lambda>e. snap - 6 \<le> fst e \<and> input_event (snd e)) (buf b)
      \<longrightarrow> evaluate fmt now snap te b = (Some idle_pause_reason, te))"
proof (intro conjI impI)
  assume "fst (evaluate fmt now snap te b) = Some idle_pause_reason"
  then show "15 < now - last_prompt te" by (simp add: evaluate_idle_iff)
next
  assume h: "15 < now - last_prompt te
        \<and> list_all (\<lambda>e. input_event (snd e) \<or> \<not> input_event (format_event fmt e)) (buf b)
        \<and> \<not> list_ex (\<lambda>e. snap - 6 \<le> fst e \<and> input_event (snd e)) (buf b)"
  then have "\<not> any_input (snapshot fmt snap 6 b)"
    by (auto simp: any_input_snapshot list_ex_iff list_all_iff)
  with h show "evaluate fmt now snap te b = (Some idle_pause_reason, te)"
    by (simp add: evaluate_def Let_def)
qed

text \<open>
  C2, witness: a window-title event at t = 18, evaluation at t = 20, \<open>last_prompt = 0\<close>.
\<close>

theorem idle_pause_amended_witness:
  "15 < 20 - last_prompt TriggerEngine_init
   \<and> list_all (\<lambda>e. input_event (snd e) \<or> \<not> input_event (format_event isoformat_utc e))
       (buf idle_buffer)
   \<and> \<not> list_ex (\<lambda>e. 20 - 6 \<le> fst e \<and> input_event (snd e)) (buf idle_buffer)
   \<and> evaluate isoformat_utc 20 20 TriggerEngine_init idle_buffer
       = (Some idle_pause_reason, TriggerEngine_init)
   \<and> fst (evaluate isoformat_utc 20 20 TriggerEngine_init idle_buffer) = Some idle_pause_reason"
proof -
  have h: "15 < 20 - last_prompt TriggerEngine_init
   \<and> list_all (\<lambda>e. input_event (snd e) \<or> \<not> input_event (format_event isoformat_utc e))
       (buf idle_buffer)
   \<and> \<not> list_ex (\<lambda>e. 20 - 6 \<le> fst e \<and> input_event (snd e)) (buf idle_buffer)"
    by code_simp
  have "evaluate isoformat_utc 20 20 TriggerEngine_init idle_buffer
       = (Some idle_pause_reason, TriggerEngine_init)"
    using idle_pause_amended [of isoformat_utc 20 20 TriggerEngine_init idle_buffer] h
    by blast
  with h show ?thesis by simp
qed

text \<open>
  C2, counterexample: at exactly 15 seconds after \<open>last_prompt\<close>, with an empty buffer, the
  rule as the specification words it holds, and \<open>evaluate\<close> returns no reason.
\<close>

theorem idle_pause_at_15_counterexample:
  "spec_idle_pause 15 TriggerEngine_init (TelemetryBuffer_init 500)
   \<and> fst (evaluate isoformat_utc 15 15 TriggerEngine_init (TelemetryBuffer_init 500)) = None"
  by code_simp

text \<open>
  C3, as amended. \<open>evaluate\<close> does not return the file-burst reason unless strictly more
  than 30 seconds have passed since \<open>last_prompt\<close>, and not unless the list already held
  two entries younger than 30 seconds before the call: a call adds at most one entry, its
  own time. In the scenario of the specification (\<^verbatim>\<open>[file+]\<close> events at t = 0, 10, 20,
  \<open>last_prompt = 0\<close>) the evaluation at t = 25 returns the idle-pause reason, and so does
  the evaluation at t = 41 that follows it.
\<close>

theorem file_burst_amended:
  "(now - last_prompt te \<le> 30 \<longrightarrow> fst (evaluate fmt now snap te b) \<noteq> Some file_burst_reason)
   \<and> (length (filter (\<lambda>ts. now - ts < 30) (file_events te)) < 2
        \<longrightarrow> fst (evaluate fmt now snap te b) \<noteq> Some file_burst_reason)
   \<and> fst (evaluate isoformat_utc 25 25 TriggerEngine_init burst_buffer) = Some idle_pause_reason
   \<and> fst (evaluate isoformat_utc 41 41
             (snd (evaluate isoformat_utc 25 25 TriggerEngine_init burst_buffer)) burst_buffer)
       = Some idle_pause_reason"
proof -
  have a: "now - last_prompt te \<le> 30 \<longrightarrow> fst (evaluate fmt now snap te b) \<noteq> Some file_burst_reason"
    by (simp add: evaluate_burst_iff)
  have b: "length (filter (\<lambda>ts. now - ts < 30) (file_events te)) < 2
        \<longrightarrow> fst (evaluate fmt now snap te b) \<noteq> Some file_burst_reason"
    by (simp add: evaluate_burst_iff)
  have c: "fst (evaluate isoformat_utc 25 25 TriggerEngine_init burst_buffer) = Some idle_pause_reason"
    by code_simp
  have d: "fst (evaluate isoformat_utc 41 41
             (snd (evaluate isoformat_utc 25 25 TriggerEngine_init burst_buffer)) burst_buffer)
       = Some idle_pause_reason"
    by code_simp
  from a b c d show ?thesis by simp
qed

text \<open>
  C3, witness: the scenario at t = 25 on a fresh engine.
\<close>

theorem file_burst_amended_witness:
  "25 - last_prompt TriggerEngine_init \<le> 30
   \<and> length (filter (\<lambda>ts. 25 - ts < 30) (file_events TriggerEngine_init)) < 2
   \<and> fst (evaluate isoformat_utc 25 25 TriggerEngine_init burst_buffer) \<noteq> Some file_burst_reason"
proof -
  have h: "25 - last_prompt TriggerEngine_init \<le> 30
      \<and> length (filter (\<lambda>ts. 25 - ts < 30) (file_events TriggerEngine_init)) < 2"
    by (simp add: TriggerEngine_init_def)
  with file_burst_amended [of 25 TriggerEngine_init isoformat_utc 25 burst_buffer]
  show ?thesis by blast
qed

text \<open>
  C3, counterexample: in the scenario the evaluation at t = 25 does not return the
  file-burst reason and the one at t = 41 does return a reason; and with three
  \<^verbatim>\<open>[file+]\<close> events in the trailing 30 seconds, a key press at t = 34 and 35 seconds since
  \<open>last_prompt\<close>, the rule as the specification words it holds and \<open>evaluate\<close> does not
  return the file-burst reason.
\<close>

theorem file_burst_counterexample:
  "fst (evaluate isoformat_utc 25 25 TriggerEngine_init burst_buffer) \<noteq> Some file_burst_reason
   \<and> fst (evaluate isoformat_utc 41 41
             (snd (evaluate isoformat_utc 25 25 TriggerEngine_init burst_buffer)) burst_buffer)
       \<noteq> None
   \<and> spec_file_burst 35 TriggerEngine_init busy_buffer
   \<and> fst (evaluate isoformat_utc 35 35 TriggerEngine_init busy_buffer) \<noteq> Some file_burst_reason"
  by code_simp


lemma idle_return_leaves_list:
  "fst (evaluate isoformat_utc 100 100 stale_engine (TelemetryBuffer_init 500))
     = Some idle_pause_reason
   \<and> file_events (snd (evaluate isoformat_utc 100 100 stale_engine (TelemetryBuffer_init 500)))
     = [0]
   \<and> (30::real) < 100 - 0"
  by code_simp




section \<open>Properties of the interaction cycle\<close>

lemma last_prompt_evaluate [simp]:
  "last_prompt (snd (evaluate fmt now snap te b)) = last_prompt te"
  by (simp add: evaluate_def Let_def)

lemma store_qa_frame [simp]:
  "telemetry (snd (store_qa e q a ctx s)) = telemetry s"
  "trigger (snd (store_qa e q a ctx s)) = trigger s"
  "stop_event (snd (store_qa e q a ctx s)) = stop_event s"
  "start_time (snd (store_qa e q a ctx s)) = start_time s"
  "pending_tick (snd (store_qa e q a ctx s)) = pending_tick s"
  "wav_files (snd (store_qa e q a ctx s)) = wav_files s"
  "session_logs (snd (store_qa e q a ctx s)) = session_logs s"
  by (simp_all add: store_qa_def)

lemma ask_cta_question_frame [simp]:
  "telemetry (snd (ask_cta_question e q ctx s)) = telemetry s"
  "trigger (snd (ask_cta_question e q ctx s)) = trigger s"
  "stop_event (snd (ask_cta_question e q ctx s)) = stop_event s"
  "start_time (snd (ask_cta_question e q ctx s)) = start_time s"
  "pending_tick (snd (ask_cta_question e q ctx s)) = pending_tick s"
  "session_logs (snd (ask_cta_question e q ctx s)) = session_logs s"
  by (simp_all add: ask_cta_question_def Let_def split: option.split)

lemma monitor_loop_unfold:
  "monitor_loop e s =
     (if stop_event s then after_1000 s
      else
        let r = evaluate (iso e) (t_eval e) (t_snap e) (trigger s) (telemetry s);
            s1 = s\<lparr>trigger := snd r\<rparr>
        in case fst r of
             None \<Rightarrow> after_1000 s1
           | Some h \<Rightarrow>
               if h = [] then after_1000 s1
               else
                 case llm_generate_question (chat e) h (snapshot (iso e) (t_ctx e) 60 (telemetry s)) of
                   Inl err \<Rightarrow> (Some err, s1)
                 | Inr q \<Rightarrow>
                     let a = ask_cta_question e q (snapshot (iso e) (t_ctx e) 60 (telemetry s)) s1
                     in case fst a of
                          Some err \<Rightarrow> (Some err, snd a)
                        | None \<Rightarrow>
                            after_1000
                              ((snd a)\<lparr>trigger := (trigger (snd a))\<lparr>last_prompt := t_prompt e\<rparr>\<rparr>))"
  by (simp add: monitor_loop_def Let_def split: prod.split option.split sum.split)

lemma monitor_loop_frame [simp]:
  "telemetry (snd (monitor_loop e s)) = telemetry s"
  "stop_event (snd (monitor_loop e s)) = stop_event s"
  "start_time (snd (monitor_loop e s)) = start_time s"
  "session_logs (snd (monitor_loop e s)) = session_logs s"
  by (simp_all add: monitor_loop_unfold after_1000_def Let_def
        split: option.split sum.split)

lemma monitor_loop_pending:
  "pending_tick (snd (monitor_loop e s)) = (fst (monitor_loop e s) = None \<or> pending_tick s)"
  by (simp add: monitor_loop_unfold after_1000_def Let_def
        split: option.split sum.split)

lemma monitor_loop_stopped:
  "stop_event s \<Longrightarrow> monitor_loop e s = (None, s\<lparr>pending_tick := True\<rparr>)"
  by (simp add: monitor_loop_def after_1000_def)

lemma tick_frame [simp]:
  "telemetry (snd (tick e s)) = telemetry s"
  "stop_event (snd (tick e s)) = stop_event s"
  "start_time (snd (tick e s)) = start_time s"
  "session_logs (snd (tick e s)) = session_logs s"
  by (simp_all add: tick_def)

lemma tick_stopped_trigger:
  "stop_event s \<Longrightarrow> trigger (snd (tick e s)) = trigger s"
  by (simp add: tick_def monitor_loop_stopped)

lemma run_ticks_frame [simp]:
  "telemetry (run_ticks es s) = telemetry s"
  "stop_event (run_ticks es s) = stop_event s"
  "start_time (run_ticks es s) = start_time s"
  "session_logs (run_ticks es s) = session_logs s"
  by (induction es arbitrary: s) simp_all

lemma run_ticks_stopped_trigger:
  "stop_event s \<Longrightarrow> trigger (run_ticks es s) = trigger s"
  by (induction es arbitrary: s) (simp_all add: tick_stopped_trigger)

lemma stop_task_frame [simp]:
  "telemetry (snd (stop_task fmt now s)) = telemetry s"
  "trigger (snd (stop_task fmt now s)) = trigger s"
  "stop_event (snd (stop_task fmt now s))"
  by (simp_all add: stop_task_def dump_log_def split: option.split)

text \<open>
  C5. The user accepts, the recording succeeds and \<^verbatim>\<open>transcribe_audio\<close> raises: the
  exception leaves \<^verbatim>\<open>ask_cta_question\<close> and the file \<^verbatim>\<open>ans_21.wav\<close> is still there. When
  the transcription succeeds, on the same input, the file is removed.
\<close>

theorem wav_file_left_after_failed_transcription:
  "fst (ask_cta_question failing_transcription_env ''Why?'' [] idle_gui) = Some TranscriptionError
   \<and> ''ans_21.wav'' \<in> wav_files (snd (ask_cta_question failing_transcription_env ''Why?'' [] idle_gui))
   \<and> fst (ask_cta_question answer_env ''Why?'' [] idle_gui) = None
   \<and> ''ans_21.wav'' \<notin> wav_files (snd (ask_cta_question answer_env ''Why?'' [] idle_gui))"
  by code_simp

text \<open>
  The exception that leaves \<^verbatim>\<open>ask_cta_question\<close>, and the one that leaves a tick whose
  trigger fired.
\<close>

lemma ask_cta_question_outcome:
  "fst (ask_cta_question e q ctx s) =
      (if askyesno e then
         (if \<not> capture_ok e then Some CaptureError
          else case transcription e of
                 None \<Rightarrow> Some TranscriptionError
               | Some text \<Rightarrow> if log_ok e then None else Some OSError)
       else if log_ok e then None else Some OSError)"
  by (simp add: ask_cta_question_def store_qa_def Let_def split: option.split)

lemma tick_outcome:
  assumes "pending_tick s" "\<not> stop_event s" "cycle_hint e s = Some hint" "hint \<noteq> []"
  shows "fst (tick e s) =
      (case model_reply e s hint of
         None \<Rightarrow> Some ModelError
       | Some content \<Rightarrow>
           fst (ask_cta_question e (strip content) (cycle_context e s)
                  (s\<lparr>pending_tick := False,
                     trigger := snd (evaluate (iso e) (t_eval e) (t_snap e) (trigger s)
                                       (telemetry s))\<rparr>)))"
  using assms
  by (simp add: tick_def monitor_loop_unfold Let_def llm_generate_question_def after_1000_def
        split: option.split)

text \<open>
  The engine after \<^verbatim>\<open>monitor_loop\<close> is the engine before it after a run of engine steps.
\<close>

lemma monitor_loop_engine_steps:
  "\<exists>steps. trigger (snd (monitor_loop e s)) = engine_run (iso e) steps (trigger s)"
proof -
  let ?ev = "Evaluate (t_eval e) (t_snap e) (telemetry s)"
  have "trigger (snd (monitor_loop e s)) = engine_run (iso e) [] (trigger s)
      \<or> trigger (snd (monitor_loop e s)) = engine_run (iso e) [?ev] (trigger s)
      \<or> trigger (snd (monitor_loop e s))
          = engine_run (iso e) [?ev, Prompted (t_prompt e)] (trigger s)"
    by (simp add: monitor_loop_unfold after_1000_def Let_def split: option.split sum.split)
  then show ?thesis by blast
qed

text \<open>
  C6, as amended. In a tick whose trigger fired, a failing question generation, a failing
  recording, a failing transcription and a failing log write each leave the tick as an
  exception; the tick returns normally only when none of them fails. A call of
  \<^verbatim>\<open>monitor_loop\<close> registers the next tick exactly when it returns without an exception.
  While stop is requested it skips the evaluation and registers the next tick. After a
  tick that an exception has left, no callback is pending, and the event loop runs
  \<^verbatim>\<open>monitor_loop\<close> no more.
\<close>

theorem monitor_loop_reschedule_amended:
  "(pending_tick s \<and> \<not> stop_event s \<and> cycle_hint e s = Some hint \<and> hint \<noteq> [] \<longrightarrow>
      (model_reply e s hint = None \<longrightarrow> fst (tick e s) = Some ModelError)
      \<and> (model_reply e s hint \<noteq> None \<and> askyesno e \<and> \<not> capture_ok e
          \<longrightarrow> fst (tick e s) = Some CaptureError)
      \<and> (model_reply e s hint \<noteq> None \<and> askyesno e \<and> capture_ok e \<and> transcription e = None
          \<longrightarrow> fst (tick e s) = Some TranscriptionError)
      \<and> (model_reply e s hint \<noteq> None
            \<and> (askyesno e \<longrightarrow> capture_ok e \<and> transcription e \<noteq> None) \<and> \<not> log_ok e
          \<longrightarrow> fst (tick e s) = Some OSError)
      \<and> (model_reply e s hint \<noteq> None
            \<and> (askyesno e \<longrightarrow> capture_ok e \<and> transcription e \<noteq> None) \<and> log_ok e
          \<longrightarrow> fst (tick e s) = None))
   \<and> (pending_tick (snd (monitor_loop e (s\<lparr>pending_tick := False\<rparr>)))
      \<longleftrightarrow> fst (monitor_loop e (s\<lparr>pending_tick := False\<rparr>)) = None)
   \<and> (stop_event s \<longrightarrow> monitor_loop e s = (None, s\<lparr>pending_tick := True\<rparr>))
   \<and> (fst (tick e s) \<noteq> None \<longrightarrow> tick e' (snd (tick e s)) = (None, snd (tick e s)))"
proof (intro conjI impI)
  assume "pending_tick s \<and> \<not> stop_event s \<and> cycle_hint e s = Some hint \<and> hint \<noteq> []"
  then have o: "fst (tick e s) =
      (case model_reply e s hint of
         None \<Rightarrow> Some ModelError
       | Some content \<Rightarrow>
           fst (ask_cta_question e (strip content) (cycle_context e s)
                  (s\<lparr>pending_tick := False,
                     trigger := snd (evaluate (iso e) (t_eval e) (t_snap e) (trigger s)
                                       (telemetry s))\<rparr>)))"
    by (intro tick_outcome) simp_all
  {
    assume "model_reply e s hint = None"
    then show "fst (tick e s) = Some ModelError" by (simp add: o)
  next
    assume "model_reply e s hint \<noteq> None \<and> askyesno e \<and> \<not> capture_ok e"
    then show "fst (tick e s) = Some CaptureError"
      by (auto simp: o ask_cta_question_outcome)
  next
    assume "model_reply e s hint \<noteq> None \<and> askyesno e \<and> capture_ok e \<and> transcription e = None"
    then show "fst (tick e s) = Some TranscriptionError"
      by (auto simp: o ask_cta_question_outcome)
  next
    assume "model_reply e s hint \<noteq> None
            \<and> (askyesno e \<longrightarrow> capture_ok e \<and> transcription e \<noteq> None) \<and> \<not> log_ok e"
    then show "fst (tick e s) = Some OSError"
      by (auto simp: o ask_cta_question_outcome)
  next
    assume "model_reply e s hint \<noteq> None
            \<and> (askyesno e \<longrightarrow> capture_ok e \<and> transcription e \<noteq> None) \<and> log_ok e"
    then show "fst (tick e s) = None"
      by (auto simp: o ask_cta_question_outcome)
  }
next
  show "pending_tick (snd (monitor_loop e (s\<lparr>pending_tick := False\<rparr>)))
      \<longleftrightarrow> fst (monitor_loop e (s\<lparr>pending_tick := False\<rparr>)) = None"
    by (simp add: monitor_loop_pending)
next
  assume "stop_event s"
  then show "monitor_loop e s = (None, s\<lparr>pending_tick := True\<rparr>)"
    by (rule monitor_loop_stopped)
next
  assume err: "fst (tick e s) \<noteq> None"
  then have p: "pending_tick s" by (auto simp: tick_def split: if_splits)
  with err have "\<not> pending_tick (snd (tick e s))"
    by (simp add: tick_def monitor_loop_pending)
  then show "tick e' (snd (tick e s)) = (None, snd (tick e s))"
    by (simp add: tick_def)
qed

text \<open>
  C6, witness: the idle-pause trigger at t = 20 with each collaborator failing in turn,
  with none failing, and a tick while stop is requested.
\<close>

theorem monitor_loop_reschedule_amended_witness:
  "pending_tick ticking_gui \<and> \<not> stop_event ticking_gui
   \<and> idle_pause_reason \<noteq> []
   \<and> cycle_hint failing_model_env ticking_gui = Some idle_pause_reason
   \<and> model_reply failing_model_env ticking_gui idle_pause_reason = None
   \<and> fst (tick failing_model_env ticking_gui) = Some ModelError
   \<and> cycle_hint failing_capture_env ticking_gui = Some idle_pause_reason
   \<and> model_reply failing_capture_env ticking_gui idle_pause_reason \<noteq> None
   \<and> askyesno failing_capture_env \<and> \<not> capture_ok failing_capture_env
   \<and> fst (tick failing_capture_env ticking_gui) = Some CaptureError
   \<and> cycle_hint failing_transcription_env ticking_gui = Some idle_pause_reason
   \<and> model_reply failing_transcription_env ticking_gui idle_pause_reason \<noteq> None
   \<and> askyesno failing_transcription_env \<and> capture_ok failing_transcription_env
   \<and> transcription failing_transcription_env = None
   \<and> fst (tick failing_transcription_env ticking_gui) = Some TranscriptionError
   \<and> cycle_hint failing_log_env ticking_gui = Some idle_pause_reason
   \<and> model_reply failing_log_env ticking_gui idle_pause_reason \<noteq> None
   \<and> capture_ok failing_log_env \<and> transcription failing_log_env \<noteq> None
   \<and> \<not> log_ok failing_log_env
   \<and> fst (tick failing_log_env ticking_gui) = Some OSError
   \<and> cycle_hint answer_env ticking_gui = Some idle_pause_reason
   \<and> model_reply answer_env ticking_gui idle_pause_reason \<noteq> None
   \<and> capture_ok answer_env \<and> transcription answer_env \<noteq> None \<and> log_ok answer_env
   \<and> fst (tick answer_env ticking_gui) = None
   \<and> stop_event stopped_gui
   \<and> monitor_loop answer_env stopped_gui = (None, stopped_gui\<lparr>pending_tick := True\<rparr>)
   \<and> tick answer_env (snd (tick failing_model_env ticking_gui))
       = (None, snd (tick failing_model_env ticking_gui))"
proof -
  have g: "pending_tick ticking_gui \<and> \<not> stop_event ticking_gui" by code_simp
  have n: "idle_pause_reason \<noteq> []" by (simp add: idle_pause_reason_def)
  have m: "cycle_hint failing_model_env ticking_gui = Some idle_pause_reason
     \<and> model_reply failing_model_env ticking_gui idle_pause_reason = None"
    by code_simp
  have c: "cycle_hint failing_capture_env ticking_gui = Some idle_pause_reason
     \<and> model_reply failing_capture_env ticking_gui idle_pause_reason \<noteq> None
     \<and> askyesno failing_capture_env \<and> \<not> capture_ok failing_capture_env"
    by code_simp
  have t: "cycle_hint failing_transcription_env ticking_gui = Some idle_pause_reason
     \<and> model_reply failing_transcription_env ticking_gui idle_pause_reason \<noteq> None
     \<and> askyesno failing_transcription_env \<and> capture_ok failing_transcription_env
     \<and> transcription failing_transcription_env = None"
    by code_simp
  have l: "cycle_hint failing_log_env ticking_gui = Some idle_pause_reason
     \<and> model_reply failing_log_env ticking_gui idle_pause_reason \<noteq> None
     \<and> capture_ok failing_log_env \<and> transcription failing_log_env \<noteq> None
     \<and> \<not> log_ok failing_log_env"
    by code_simp
  have a: "cycle_hint answer_env ticking_gui = Some idle_pause_reason
     \<and> model_reply answer_env ticking_gui idle_pause_reason \<noteq> None
     \<and> capture_ok answer_env \<and> transcription answer_env \<noteq> None \<and> log_ok answer_env"
    by code_simp
  have st: "stop_event stopped_gui" by code_simp
  have rm: "fst (tick failing_model_env ticking_gui) = Some ModelError"
    using monitor_loop_reschedule_amended
      [of ticking_gui failing_model_env idle_pause_reason answer_env] g n m by simp
  have rc: "fst (tick failing_capture_env ticking_gui) = Some CaptureError"
    using monitor_loop_reschedule_amended
      [of ticking_gui failing_capture_env idle_pause_reason answer_env] g n c by simp
  have rt: "fst (tick failing_transcription_env ticking_gui) = Some TranscriptionError"
    using monitor_loop_reschedule_amended
      [of ticking_gui failing_transcription_env idle_pause_reason answer_env] g n t by simp
  have rl: "fst (tick failing_log_env ticking_gui) = Some OSError"
    using monitor_loop_reschedule_amended
      [of ticking_gui failing_log_env idle_pause_reason answer_env] g n l by simp
  have ra: "fst (tick answer_env ticking_gui) = None"
    using monitor_loop_reschedule_amended
      [of ticking_gui answer_env idle_pause_reason answer_env] g n a by simp
  have rs: "monitor_loop answer_env stopped_gui = (None, stopped_gui\<lparr>pending_tick := True\<rparr>)"
    using monitor_loop_reschedule_amended
      [of stopped_gui answer_env idle_pause_reason answer_env] st by simp
  have rd: "tick answer_env (snd (tick failing_model_env ticking_gui))
       = (None, snd (tick failing_model_env ticking_gui))"
    using monitor_loop_reschedule_amended
      [of ticking_gui failing_model_env idle_pause_reason answer_env] rm by simp
  from g n m c t l a st rm rc rt rl ra rs rd show ?thesis by simp
qed

text \<open>
  C6, counterexample: no stop is requested; the model call fails in one tick, the
  transcription in another. Either way the exception leaves the tick and no next tick is
  pending.
\<close>

theorem tick_error_ends_loop_counterexample:
  "\<not> stop_event ticking_gui
   \<and> fst (tick failing_model_env ticking_gui) = Some ModelError
   \<and> \<not> pending_tick (snd (tick failing_model_env ticking_gui))
   \<and> fst (tick failing_transcription_env ticking_gui) = Some TranscriptionError
   \<and> \<not> pending_tick (snd (tick failing_transcription_env ticking_gui))"
  by code_simp

text \<open>
  C7. If the monitor loop is not stopped, \<open>evaluate\<close> returns a reason and the question
  generation fails, then the exception leaves \<^verbatim>\<open>monitor_loop\<close>, \<open>last_prompt\<close> is as it was
  before the cycle and nothing has been appended to \<^verbatim>\<open>cta_log.jsonl\<close>.
\<close>

theorem failed_question_generation:
  assumes "\<not> stop_event s"
    and "fst (evaluate (iso e) (t_eval e) (t_snap e) (trigger s) (telemetry s)) = Some hint"
    and "hint \<noteq> []"
    and "llm_generate_question (chat e) hint (snapshot (iso e) (t_ctx e) 60 (telemetry s)) = Inl err"
  shows "fst (monitor_loop e s) = Some err
         \<and> last_prompt (trigger (snd (monitor_loop e s))) = last_prompt (trigger s)
         \<and> cta_log (snd (monitor_loop e s)) = cta_log s"
  using assms by (simp add: monitor_loop_unfold Let_def)

text \<open>
  C7, witness: the idle-pause trigger at t = 20 with a model call that raises.
\<close>

theorem failed_question_generation_witness:
  "\<not> stop_event idle_gui
   \<and> fst (evaluate (iso failing_model_env) (t_eval failing_model_env) (t_snap failing_model_env)
             (trigger idle_gui) (telemetry idle_gui)) = Some idle_pause_reason
   \<and> idle_pause_reason \<noteq> []
   \<and> llm_generate_question (chat failing_model_env) idle_pause_reason
        (snapshot (iso failing_model_env) (t_ctx failing_model_env) 60 (telemetry idle_gui))
       = Inl ModelError
   \<and> fst (monitor_loop failing_model_env idle_gui) = Some ModelError
   \<and> last_prompt (trigger (snd (monitor_loop failing_model_env idle_gui)))
       = last_prompt (trigger idle_gui)
   \<and> cta_log (snd (monitor_loop failing_model_env idle_gui)) = cta_log idle_gui"
proof -
  have h1: "\<not> stop_event idle_gui" by code_simp
  have h2: "fst (evaluate (iso failing_model_env) (t_eval failing_model_env)
             (t_snap failing_model_env) (trigger idle_gui) (telemetry idle_gui))
            = Some idle_pause_reason" by code_simp
  have h3: "idle_pause_reason \<noteq> []" by (simp add: idle_pause_reason_def)
  have h4: "llm_generate_question (chat failing_model_env) idle_pause_reason
        (snapshot (iso failing_model_env) (t_ctx failing_model_env) 60 (telemetry idle_gui))
       = Inl ModelError" by code_simp
  from failed_question_generation [OF h1 h2 h3 h4] h1 h2 h3 h4 show ?thesis by simp
qed

text \<open>
  C8, as amended. When the user declines and the log can be opened, exactly one record
  is appended, with no answer, the question and the last 20 context lines. When the user
  accepts and the recording or the transcription raises, the exception leaves
  \<^verbatim>\<open>ask_cta_question\<close> before the log is written, and no record is appended.
\<close>

theorem qa_record_amended:
  "(\<not> askyesno e \<and> log_ok e \<longrightarrow>
      ask_cta_question e q ctx s =
        (None, s\<lparr>cta_log := cta_log s @
                 [\<lparr>qa_ts = log_ts e, qa_question = q, qa_answer = None,
                   qa_context = last_n 20 ctx\<rparr>]\<rparr>))
   \<and> (askyesno e \<and> (\<not> capture_ok e \<or> transcription e = None) \<longrightarrow>
        fst (ask_cta_question e q ctx s) \<noteq> None
        \<and> cta_log (snd (ask_cta_question e q ctx s)) = cta_log s)"
  by (auto simp: ask_cta_question_def store_qa_def Let_def)

text \<open>
  C8, witness: a declined recording, and an accepted one whose transcription raises.
\<close>

theorem qa_record_amended_witness:
  "\<not> askyesno decline_env \<and> log_ok decline_env
   \<and> ask_cta_question decline_env ''Why?'' [''line''] idle_gui =
        (None, idle_gui\<lparr>cta_log := cta_log idle_gui @
                 [\<lparr>qa_ts = log_ts decline_env, qa_question = ''Why?'', qa_answer = None,
                   qa_context = last_n 20 [''line'']\<rparr>]\<rparr>)
   \<and> askyesno failing_transcription_env
   \<and> transcription failing_transcription_env = None
   \<and> fst (ask_cta_question failing_transcription_env ''Why?'' [''line''] idle_gui) \<noteq> None
   \<and> cta_log (snd (ask_cta_question failing_transcription_env ''Why?'' [''line''] idle_gui))
       = cta_log idle_gui"
proof -
  have h1: "\<not> askyesno decline_env \<and> log_ok decline_env" by code_simp
  have h2: "askyesno failing_transcription_env
     \<and> transcription failing_transcription_env = None"
    by code_simp
  from h1 h2
    qa_record_amended [of decline_env "''Why?''" "[''line'']" idle_gui]
    qa_record_amended [of failing_transcription_env "''Why?''" "[''line'']" idle_gui]
  show ?thesis by simp
qed

text \<open>
  C8, counterexample: the user accepts; the transcription raises in one cycle, the
  recording in another; the log stays empty.
\<close>

theorem no_qa_record_after_failed_recording_counterexample:
  "askyesno failing_transcription_env
   \<and> cta_log (snd (ask_cta_question failing_transcription_env ''Why?'' [''line''] idle_gui)) = []
   \<and> askyesno failing_capture_env
   \<and> cta_log (snd (ask_cta_question failing_capture_env ''Why?'' [''line''] idle_gui)) = []"
  by code_simp

text \<open>
  C10. Stop, any number of ticks while stopped, then start: the buffer and the engine
  (\<open>last_prompt\<close> and the list of file events) are what they were before the stop. After
  the events of the new session have been added and the session is stopped, the session
  log named after the new start time is the snapshot of the buffer, which holds the line
  of every event of the earlier session that is still in the buffer and less than
  \<open>10\<^sup>9\<close> seconds old.
\<close>

theorem stop_start_keeps_buffer_and_engine:
  "(let s1 = run_ticks es (snd (stop_task fmt t1 s));
        s2 = start_task t2 s1;
        s3 = run_ticks es' (s2\<lparr>telemetry := add_all (telemetry s2) calls\<rparr>);
        r = stop_task fmt t3 s3;
        dump = snapshot fmt t3 (10 ^ 9) (add_all (telemetry s) calls)
    in telemetry s2 = telemetry s \<and> trigger s2 = trigger s
       \<and> fst r = None
       \<and> session_logs (snd r) (session_log_name t2) = Some dump
       \<and> (\<forall>e \<in> set (buf (telemetry s)).
             e \<in> set (buf (add_all (telemetry s) calls)) \<and> t3 - 10 ^ 9 \<le> fst e
             \<longrightarrow> format_event fmt e \<in> set dump))"
proof -
  let ?s1 = "run_ticks es (snd (stop_task fmt t1 s))"
  let ?s2 = "start_task t2 ?s1"
  have tel: "telemetry ?s2 = telemetry s"
    by (simp add: start_task_def)
  have trg: "trigger ?s2 = trigger s"
    by (simp add: start_task_def run_ticks_stopped_trigger)
  let ?s3 = "run_ticks es' (?s2\<lparr>telemetry := add_all (telemetry ?s2) calls\<rparr>)"
  have st: "start_time ?s3 = Some t2" by (simp add: start_task_def)
  have tel3: "telemetry ?s3 = add_all (telemetry s) calls"
    by (simp add: tel)
  have dump: "stop_task fmt t3 ?s3 =
      (None, ?s3\<lparr>stop_event := True, running_threads := 0,
                session_logs := (session_logs ?s3)
                   (session_log_name t2 \<mapsto>
                      snapshot fmt t3 (10 ^ 9) (add_all (telemetry s) calls))\<rparr>)"
    using st tel3 by (simp add: stop_task_def dump_log_def)
  have mem: "\<forall>e \<in> set (buf (telemetry s)).
             e \<in> set (buf (add_all (telemetry s) calls)) \<and> t3 - 10 ^ 9 \<le> fst e
             \<longrightarrow> format_event fmt e \<in> set (snapshot fmt t3 (10 ^ 9) (add_all (telemetry s) calls))"
    by (simp add: snapshot_def Let_def)
  have r1: "fst (stop_task fmt t3 ?s3) = None"
    by (simp only: dump fst_conv)
  have r2: "session_logs (snd (stop_task fmt t3 ?s3)) (session_log_name t2)
      = Some (snapshot fmt t3 (10 ^ 9) (add_all (telemetry s) calls))"
    unfolding dump by simp
  show ?thesis
    unfolding Let_def using tel trg r1 r2 mem by blast
qed

text \<open>
  C10, witness: a session with a window-title event at t = 18 is stopped at t = 25, a new
  one started at t = 30 adds an event at t = 31 and is stopped at t = 40: the line of the
  first event is in the dump.
\<close>

theorem stop_start_keeps_buffer_and_engine_witness:
  "(18, ''[win] Editor'') \<in> set (buf (telemetry running_gui))
   \<and> (18, ''[win] Editor'') \<in> set (buf (add_all (telemetry running_gui) [(31, ''[win] Mail'')]))
   \<and> 40 - 10 ^ 9 \<le> fst (18 :: real, ''[win] Editor'')
   \<and> ''1970-01-01T00:00:18  [win] Editor''
        \<in> set (snapshot isoformat_utc 40 (10 ^ 9)
                 (add_all (telemetry running_gui) [(31, ''[win] Mail'')]))
   \<and> trigger (start_task 30 (run_ticks [answer_env] (snd (stop_task isoformat_utc 25 running_gui))))
       = trigger running_gui"
proof -
  let ?e = "(18 :: real, ''[win] Editor'')"
  have h1: "?e \<in> set (buf (telemetry running_gui))" by code_simp
  have h2: "?e \<in> set (buf (add_all (telemetry running_gui) [(31, ''[win] Mail'')]))"
    by code_simp
  have h3: "40 - 10 ^ 9 \<le> fst ?e" by simp
  have f: "format_event isoformat_utc ?e = ''1970-01-01T00:00:18  [win] Editor''"
    by code_simp
  note inst = stop_start_keeps_buffer_and_engine
    [of "[answer_env]" isoformat_utc 25 running_gui 30 "[]" "[(31, ''[win] Mail'')]" 40,
     unfolded Let_def]
  from inst h1 h2 h3 have
    "format_event isoformat_utc ?e
       \<in> set (snapshot isoformat_utc 40 (10 ^ 9)
                (add_all (telemetry running_gui) [(31, ''[win] Mail'')]))"
    by blast
  with f h1 h2 h3 inst show ?thesis by simp
qed

end
